theory Spec2Isabelle
  imports Main
begin

section \<open>Python values\<close>

text \<open>
  A Python \<open>str\<close> is a sequence of Unicode code points, so a string is a list of
  naturals; \<open>str\<close> embeds an ASCII literal. The bytes of a file are naturals too.
\<close>

type_synonym pystr = "nat list"
type_synonym bytes = "nat list"

definition str :: "string \<Rightarrow> pystr" where
  "str s = map of_char s"

text \<open>
  The values that \<open>json.load\<close> produces: \<open>JNull\<close> is Python's \<open>None\<close>, an object is
  the decoded \<open>dict\<close> as an association list (looked up with \<open>map_of\<close>). A JSON number
  is kept as an integer: no operation of the program tells an int from a float.
\<close>

datatype json =
    JNull
  | JBool bool
  | JNumber int
  | JString pystr
  | JArray "json list"
  | JObject "(pystr \<times> json) list"


datatype exn =
    KeyError pystr
  | AttributeError
  | OSError
  | EOFError
  | UnicodeDecodeError
  | ValueError
  | MarkupError

text \<open>
  What \<open>json.load\<close> gives back for a string that \<open>json.dump\<close> wrote. \<open>json.dump\<close>
  writes every code point outside ASCII as \<open>\uXXXX\<close> escapes, a surrogate as its own
  escape, and \<open>json.load\<close> joins the escape of a high surrogate (U+D800 to U+DBFF)
  that is followed by the escape of a low one (U+DC00 to U+DFFF) into one code point.
  Every other code point comes back as it was.
\<close>

fun join_surrogates :: "pystr \<Rightarrow> pystr" where
  "join_surrogates (hi # lo # rest) =
     (if 55296 \<le> hi \<and> hi \<le> 56319 \<and> 56320 \<le> lo \<and> lo \<le> 57343
      then (65536 + (hi - 55296) * 1024 + (lo - 56320)) # join_surrogates rest
      else hi # join_surrogates (lo # rest))"
| "join_surrogates cs = cs"

primrec reloaded :: "json \<Rightarrow> json" where
  "reloaded JNull = JNull"
| "reloaded (JBool b) = JBool b"
| "reloaded (JNumber n) = JNumber n"
| "reloaded (JString s) = JString (join_surrogates s)"
| "reloaded (JArray xs) = JArray (map reloaded xs)"
| "reloaded (JObject kvs) = JObject (map (map_prod join_surrogates reloaded) kvs)"

section \<open>Paths\<close>

text \<open>\<open>s.split('/')[-1]\<close>: what follows the last slash (the whole string if there is none).\<close>

definition last_segment :: "pystr \<Rightarrow> pystr" where
  "last_segment s = rev (takeWhile (\<lambda>c. c \<noteq> 47) (rev s))"

text \<open>
  \<open>os.path.splitext\<close> (POSIX): the extension starts at the last period of the last path
  component, leading periods of that component not counted; it is empty when there is no
  such period.
\<close>

definition splitext :: "pystr \<Rightarrow> pystr \<times> pystr" where
  "splitext p =
     (let body = dropWhile (\<lambda>c. c = 46) (last_segment p);
          ext = (if 46 \<in> set body then 46 # rev (takeWhile (\<lambda>c. c \<noteq> 46) (rev body)) else [])
      in (take (length p - length ext) p, ext))"

text \<open>\<open>os.path.join\<close> (POSIX) of two components.\<close>

definition path_join :: "pystr \<Rightarrow> pystr \<Rightarrow> pystr" where
  "path_join a b =
     (if b \<noteq> [] \<and> hd b = 47 then b
      else if a = [] \<or> last a = 47 then a @ b
      else a @ 47 # b)"

text \<open>The directories \<open>os.makedirs\<close> creates: the path and each of its ancestors.\<close>

definition makedirs_paths :: "pystr \<Rightarrow> pystr list" where
  "makedirs_paths p = [take n p. n \<leftarrow> [1..<length p], p ! n = 47] @ [p]"

section \<open>What the remote service and the operating system answer\<close>

text \<open>
  The Bot API answers with JSON objects. The program reads a required field with
  \<open>d[k]\<close> (a missing key raises \<open>KeyError\<close>) and an optional one with \<open>d.get(k)\<close>,
  so each object is a record of the fields the program reads, every one of them optional;
  a field that is present holds a value of the type the Bot API documents for it.
\<close>

record sticker =
  file_id :: "pystr option"
  file_unique_id :: "pystr option"
  emoji :: "pystr option"

record result_obj =
  title :: "pystr option"
  stickers :: "sticker list option"
  file_path :: "pystr option"

record reply =
  ok :: "bool option"
  result :: "result_obj option"

text \<open>
  \<open>requests.get(url, params)\<close> followed by \<open>raise_for_status\<close> and \<open>json\<close>: one of them
  raises a \<open>RequestException\<close>, or the decoded body is returned, which is an object
  (\<open>Body\<close>) or a JSON value of another kind (\<open>Not_object\<close>: null, a boolean, a number,
  a string or an array), of which the program observes the truth value only.
\<close>

datatype response = RequestException | Body reply | Not_object (truth: bool)

text \<open>
  \<open>requests.get(url, stream=True)\<close>: the request raises; or the response carries a
  \<open>content-length\<close> header that \<open>int\<close> rejects; or it carries an optional numeric
  \<open>content-length\<close> and yields its chunks, after which the iteration ends or
  (\<open>broken\<close>) raises a \<open>RequestException\<close>.
\<close>

datatype stream =
    StreamException
  | Stream_bad_length
  | Stream (content_length: "nat option") (chunks: "bytes list") (broken: bool)

text \<open>
  \<open>img.save(png_path, 'PNG')\<close>: the encoded file is written, or the call raises; then
  the destination is as it was (\<open>None\<close>) or holds what was written so far.
\<close>

datatype save_outcome = Written bytes | SaveError "bytes option"

text \<open>
  Everything the program calls outside the repository, as parameters: the Unicode tables
  behind \<open>str.isalnum\<close> and \<open>str.lower\<close>, the remote service (by token, endpoint and
  parameter value; by token and file path), whether the operating system and the image
  library carry out a request, and whether the console library accepts a text as markup.
\<close>

record platform =
  isalnum :: "nat \<Rightarrow> bool"
  lower :: "pystr \<Rightarrow> pystr"
  api_get :: "json \<Rightarrow> pystr \<Rightarrow> pystr \<Rightarrow> response"
  file_get :: "json \<Rightarrow> pystr \<Rightarrow> stream"
  makedirs_ok :: "pystr \<Rightarrow> bool"
  open_ok :: "pystr \<Rightarrow> bool"
  image_ok :: "bytes \<Rightarrow> bool"
  save_png :: "bytes \<Rightarrow> pystr \<Rightarrow> save_outcome"
  remove_ok :: "pystr \<Rightarrow> bool"
  markup_ok :: "pystr \<Rightarrow> bool"

section \<open>Program state\<close>

datatype task_id = Download_task | Convert_task

record task =
  task_total :: nat
  task_completed :: nat

datatype message =
    Error_api_request
  | Error_downloading
  | Error_converting
  | Error_pack_info
  | Panel_downloading pystr
  | Panel_complete
  | Panel_welcome
  | No_saved_token
  | Token_saved
  | Token_loaded

text \<open>
  The config file: missing; present but refused by \<open>open\<close> (\<open>OSError\<close>); present with
  bytes that are not text in the encoding of \<open>open\<close> (\<open>UnicodeDecodeError\<close>); present
  with text that \<open>json.load\<close> rejects (\<open>JSONDecodeError\<close>); or present with a JSON
  document, held as the value that \<open>json.load\<close> returns for it.
\<close>

datatype config_file = Missing | Unopenable | Undecodable | Malformed | Document json

text \<open>
  \<open>calls\<close> is a ghost field: the invocations of the two file helpers, in order, with
  their path arguments.
\<close>

datatype call = Download_call pystr pystr | Convert_call pystr pystr

record state =
  dirs :: "pystr set"
  files :: "pystr \<rightharpoonup> bytes"
  config :: config_file
  console :: "message list"
  progress :: "task_id \<Rightarrow> task"
  calls :: "call list"

definition print :: "message \<Rightarrow> state \<Rightarrow> state" where
  "print m s = s\<lparr>console := console s @ [m]\<rparr>"

definition add_task :: "task_id \<Rightarrow> nat \<Rightarrow> state \<Rightarrow> state" where
  "add_task t n s = s\<lparr>progress := (progress s)(t := \<lparr>task_total = n, task_completed = 0\<rparr>)\<rparr>"

definition update_total :: "task_id \<Rightarrow> nat \<Rightarrow> state \<Rightarrow> state" where
  "update_total t n s = s\<lparr>progress := (progress s)(t := (progress s t)\<lparr>task_total := n\<rparr>)\<rparr>"

definition advance :: "task_id \<Rightarrow> nat \<Rightarrow> state \<Rightarrow> state" where
  "advance t n s =
     s\<lparr>progress := (progress s)(t := (progress s t)\<lparr>task_completed := task_completed (progress s t) + n\<rparr>)\<rparr>"

definition record_call :: "call \<Rightarrow> state \<Rightarrow> state" where
  "record_call c s = s\<lparr>calls := calls s @ [c]\<rparr>"

section \<open>TelegramStickerDownloader\<close>

record downloader =
  bot_token :: json

text \<open>
  What \<open>_make_api_request\<close> returns: \<open>None\<close> after a request exception, and the
  decoded body otherwise, a \<open>dict\<close> or a value of another type.
\<close>

datatype answer = No_answer | Dict reply | Other bool

definition make_api_request :: "platform \<Rightarrow> downloader \<Rightarrow> pystr \<Rightarrow> pystr \<Rightarrow> state \<Rightarrow> answer \<times> state" where
  "make_api_request P d endpoint param s =
     (case api_get P (bot_token d) endpoint param of
        RequestException \<Rightarrow> (No_answer, print Error_api_request s)
      | Body r \<Rightarrow> (Dict r, s)
      | Not_object truthy_body \<Rightarrow> (Other truthy_body, s))"

definition get_sticker_set :: "platform \<Rightarrow> downloader \<Rightarrow> pystr \<Rightarrow> state \<Rightarrow> answer \<times> state" where
  "get_sticker_set P d pack_name s = make_api_request P d (str ''getStickerSet'') pack_name s"

definition get_file_info :: "platform \<Rightarrow> downloader \<Rightarrow> pystr \<Rightarrow> state \<Rightarrow> answer \<times> state" where
  "get_file_info P d fid s = make_api_request P d (str ''getFile'') fid s"

text \<open>\<open>f.write(chunk); progress.update(task_id, advance=len(chunk))\<close> for each chunk.\<close>

fun write_chunks :: "pystr \<Rightarrow> task_id \<Rightarrow> bytes list \<Rightarrow> state \<Rightarrow> state" where
  "write_chunks path t [] s = s"
| "write_chunks path t (chunk # rest) s =
     write_chunks path t rest
       (advance t (length chunk)
          (s\<lparr>files := (files s)(path \<mapsto> (case files s path of None \<Rightarrow> chunk | Some b \<Rightarrow> b @ chunk))\<rparr>))"

text \<open>
  \<open>_download_file\<close>. Only \<open>RequestException\<close> is caught: a \<open>content-length\<close> that is
  not a number raises \<open>ValueError\<close> and a failing \<open>open(save_path, 'wb')\<close> raises
  \<open>OSError\<close> to the caller. Every other path returns \<open>None\<close>.
\<close>

definition download_file :: "platform \<Rightarrow> downloader \<Rightarrow> pystr \<Rightarrow> pystr \<Rightarrow> task_id \<Rightarrow> state \<Rightarrow> (exn + unit) \<times> state" where
  "download_file P d path save_path t s0 =
     (let s = record_call (Download_call path save_path) s0 in
      case file_get P (bot_token d) path of
        StreamException \<Rightarrow> (Inr (), print Error_downloading s)
      | Stream_bad_length \<Rightarrow> (Inl ValueError, s)
      | Stream len cs brk \<Rightarrow>
          (let s1 = update_total t (case len of None \<Rightarrow> 0 | Some n \<Rightarrow> n) s in
           if \<not> open_ok P save_path then (Inl OSError, s1)
           else
             (let s2 = write_chunks save_path t cs (s1\<lparr>files := (files s1)(save_path \<mapsto> [])\<rparr>)
              in (Inr (), if brk then print Error_downloading s2 else s2))))"

text \<open>
  \<open>_convert_webp_to_png\<close>. \<open>except Exception\<close> catches whatever \<open>Image.open\<close>,
  \<open>img.save\<close> or \<open>os.remove\<close> raises, so the helper always returns. \<open>os.remove\<close>
  raises when the source is not there or the operating system refuses to remove it.
\<close>

definition convert_webp_to_png :: "platform \<Rightarrow> pystr \<Rightarrow> pystr \<Rightarrow> state \<Rightarrow> state" where
  "convert_webp_to_png P webp_path png_path s0 =
     (let s = record_call (Convert_call webp_path png_path) s0 in
      case files s webp_path of
        None \<Rightarrow> print Error_converting s
      | Some b \<Rightarrow>
          if \<not> image_ok P b then print Error_converting s
          else
            (case save_png P b png_path of
               SaveError left \<Rightarrow>
                 print Error_converting
                   (case left of None \<Rightarrow> s | Some part \<Rightarrow> s\<lparr>files := (files s)(png_path \<mapsto> part)\<rparr>)
             | Written out \<Rightarrow>
                 (let s1 = s\<lparr>files := (files s)(png_path \<mapsto> out)\<rparr> in
                  if files s1 webp_path = None \<or> \<not> remove_ok P webp_path
                  then print Error_converting s1
                  else s1\<lparr>files := (files s1)(webp_path := None)\<rparr>)))"

text \<open>Lines 145, 148 and 155 of the source: the sanitised emoji and the two file names.\<close>

definition sanitized_emoji :: "platform \<Rightarrow> sticker \<Rightarrow> pystr" where
  "sanitized_emoji P st =
     filter (isalnum P) (case emoji st of None \<Rightarrow> str ''sticker'' | Some e \<Rightarrow> e)"

definition file_name :: "pystr \<Rightarrow> pystr \<Rightarrow> pystr \<Rightarrow> pystr" where
  "file_name uid san ext = uid @ str ''_'' @ san @ ext"

definition png_file_name :: "pystr \<Rightarrow> pystr \<Rightarrow> pystr" where
  "png_file_name uid san = uid @ str ''_'' @ san @ str ''.png''"

text \<open>
  The body of the \<open>for sticker in stickers\<close> loop. \<open>file_info and file_info.get("ok")\<close>
  is false for \<open>None\<close>, for a \<open>dict\<close> whose \<open>ok\<close> is missing or false and for a falsy
  value of another type; on a truthy value that is not a \<open>dict\<close>, \<open>file_info.get\<close>
  raises \<open>AttributeError\<close>.
\<close>

definition process_sticker :: "platform \<Rightarrow> downloader \<Rightarrow> pystr \<Rightarrow> sticker \<Rightarrow> state \<Rightarrow> (exn + unit) \<times> state" where
  "process_sticker P d pack_folder st s =
     (case file_id st of
        None \<Rightarrow> (Inl (KeyError (str ''file_id'')), s)
      | Some fid \<Rightarrow>
          (case get_file_info P d fid s of (file_info, s1) \<Rightarrow>
             (case file_info of
                No_answer \<Rightarrow> (Inr (), advance Download_task 1 s1)
              | Other truthy_body \<Rightarrow>
                  if truthy_body then (Inl AttributeError, s1)
                  else (Inr (), advance Download_task 1 s1)
              | Dict info \<Rightarrow>
                  if ok info = Some True then
                    (case result info of
                       None \<Rightarrow> (Inl (KeyError (str ''result'')), s1)
                     | Some res \<Rightarrow>
                         (case file_path res of
                            None \<Rightarrow> (Inl (KeyError (str ''file_path'')), s1)
                          | Some path \<Rightarrow>
                              (let file_extension = snd (splitext path) in
                               case file_unique_id st of
                                 None \<Rightarrow> (Inl (KeyError (str ''file_unique_id'')), s1)
                               | Some uid \<Rightarrow>
                                   (let san = sanitized_emoji P st;
                                        webp_save_path =
                                          path_join pack_folder (file_name uid san file_extension)
                                    in case download_file P d path webp_save_path Download_task s1 of
                                         (Inl e, s2) \<Rightarrow> (Inl e, s2)
                                       | (Inr _, s2) \<Rightarrow>
                                           (let s3 =
                                                  (if lower P file_extension = str ''.webp''
                                                   then convert_webp_to_png P webp_save_path
                                                          (path_join pack_folder (png_file_name uid san)) s2
                                                   else s2);
                                                s4 = advance Convert_task 1 s3
                                            in (Inr (), advance Download_task 1 s4))))))
                  else (Inr (), advance Download_task 1 s1))))"

fun download_loop :: "platform \<Rightarrow> downloader \<Rightarrow> pystr \<Rightarrow> sticker list \<Rightarrow> state \<Rightarrow> (exn + unit) \<times> state" where
  "download_loop P d pack_folder [] s = (Inr (), s)"
| "download_loop P d pack_folder (st # rest) s =
     (case process_sticker P d pack_folder st s of
        (Inl e, s') \<Rightarrow> (Inl e, s')
      | (Inr _, s') \<Rightarrow> download_loop P d pack_folder rest s')"

text \<open>
  \<open>download_sticker_pack\<close>. \<open>not pack_info or not pack_info.get("ok")\<close> is the negation
  of the test in the loop body, and raises on the same values. The title goes into the
  markup of the panel printed at line 120, and \<open>console.print\<close> raises \<open>MarkupError\<close>
  on a text that is not valid markup.
\<close>

definition download_sticker_pack :: "platform \<Rightarrow> downloader \<Rightarrow> pystr \<Rightarrow> pystr \<Rightarrow> state \<Rightarrow> (exn + unit) \<times> state" where
  "download_sticker_pack P d sticker_pack_link output_folder s =
     (let pack_name = last_segment sticker_pack_link in
      case get_sticker_set P d pack_name s of (pack_info, s1) \<Rightarrow>
        (case pack_info of
           No_answer \<Rightarrow> (Inr (), print Error_pack_info s1)
         | Other truthy_body \<Rightarrow>
             if truthy_body then (Inl AttributeError, s1)
             else (Inr (), print Error_pack_info s1)
         | Dict info \<Rightarrow>
             if ok info \<noteq> Some True then (Inr (), print Error_pack_info s1)
             else
               (let pack_folder = path_join output_folder pack_name in
                if \<not> makedirs_ok P pack_folder then (Inl OSError, s1)
                else
                  (let s2 = s1\<lparr>dirs := dirs s1 \<union> set (makedirs_paths pack_folder)\<rparr> in
                   case result info of
                     None \<Rightarrow> (Inl (KeyError (str ''result'')), s2)
                   | Some res \<Rightarrow>
                       (case title res of
                          None \<Rightarrow> (Inl (KeyError (str ''title'')), s2)
                        | Some ttl \<Rightarrow>
                            if \<not> markup_ok P ttl then (Inl MarkupError, s2)
                            else
                              (let s3 = print (Panel_downloading ttl) s2 in
                               case stickers res of
                                 None \<Rightarrow> (Inl (KeyError (str ''stickers'')), s3)
                               | Some sts \<Rightarrow>
                                   (let s4 = add_task Convert_task (length sts)
                                               (add_task Download_task (length sts) s3)
                                    in case download_loop P d pack_folder sts s4 of
                                         (Inl e, s5) \<Rightarrow> (Inl e, s5)
                                       | (Inr _, s5) \<Rightarrow> (Inr (), print Panel_complete s5))))))))"

section \<open>The credential file and the interactive shell\<close>

definition CONFIG_FILE :: pystr where
  "CONFIG_FILE = str ''config.json''"

definition OUTPUT_FOLDER :: pystr where
  "OUTPUT_FOLDER = str ''stickers''"

text \<open>
  \<open>load_token\<close>. \<open>except json.JSONDecodeError\<close> catches nothing else: not the
  \<open>OSError\<close> of \<open>open\<close>, not the \<open>UnicodeDecodeError\<close> of reading bytes that are not
  text, and not the \<open>AttributeError\<close> of \<open>config.get\<close> on a decoded document that is
  not a \<open>dict\<close>.
\<close>

definition load_token :: "state \<Rightarrow> exn + json" where
  "load_token s =
     (case config s of
        Missing \<Rightarrow> Inr JNull
      | Unopenable \<Rightarrow> Inl OSError
      | Undecodable \<Rightarrow> Inl UnicodeDecodeError
      | Malformed \<Rightarrow> Inr JNull
      | Document doc \<Rightarrow>
          (case doc of
             JObject kvs \<Rightarrow>
               Inr (case map_of kvs (str ''bot_token'') of None \<Rightarrow> JNull | Some v \<Rightarrow> v)
           | _ \<Rightarrow> Inl AttributeError))"

text \<open>
  \<open>save_token\<close>. The file then holds what \<open>json.dump\<close> wrote for the \<open>dict\<close>, which
  \<open>json.load\<close> reads back as \<open>reloaded\<close> of it.
\<close>

definition save_token :: "platform \<Rightarrow> json \<Rightarrow> state \<Rightarrow> (exn + unit) \<times> state" where
  "save_token P token s =
     (if \<not> open_ok P CONFIG_FILE then (Inl OSError, s)
      else (Inr (), s\<lparr>config := Document (reloaded (JObject [(str ''bot_token'', token)]))\<rparr>))"



section \<open>A concrete platform\<close>

text \<open>
  \<open>str.isalnum\<close> and \<open>str.lower\<close> on ASCII: they agree with Python on every code point
  below 128, and on the duck emoji (code point 129414), which is not alphanumeric and
  has no lower case. They are used for concrete runs only.
\<close>

definition ascii_isalnum :: "nat \<Rightarrow> bool" where
  "ascii_isalnum c = ((48 \<le> c \<and> c \<le> 57) \<or> (65 \<le> c \<and> c \<le> 90) \<or> (97 \<le> c \<and> c \<le> 122))"

definition ascii_lower :: "pystr \<Rightarrow> pystr" where
  "ascii_lower s = map (\<lambda>c. if 65 \<le> c \<and> c \<le> 90 then c + 32 else c) s"

text \<open>
  The pack of the specification's example: item A (unique id \<open>AAA\<close>, the duck emoji, a
  \<open>.webp\<close> file) and item B (unique id \<open>BBB\<close>, an empty emoji string, a \<open>.tgs\<close> file).
  Every file is served as one chunk of three bytes; nothing fails.
\<close>

definition item_A :: sticker where
  "item_A = \<lparr>file_id = Some (str ''fA''), file_unique_id = Some (str ''AAA''), emoji = Some [129414]\<rparr>"

definition item_B :: sticker where
  "item_B = \<lparr>file_id = Some (str ''fB''), file_unique_id = Some (str ''BBB''), emoji = Some []\<rparr>"

definition file_result :: "pystr \<Rightarrow> result_obj" where
  "file_result path = \<lparr>title = None, stickers = None, file_path = Some path\<rparr>"

definition file_body :: "pystr \<Rightarrow> reply" where
  "file_body path = \<lparr>ok = Some True, result = Some (file_result path)\<rparr>"

definition file_reply :: "pystr \<Rightarrow> response" where
  "file_reply path = Body (file_body path)"

definition pack_result :: "sticker list \<Rightarrow> result_obj" where
  "pack_result sts = \<lparr>title = Some (str ''Utya The Duck''), stickers = Some sts, file_path = None\<rparr>"

definition pack_body :: "sticker list \<Rightarrow> reply" where
  "pack_body sts = \<lparr>ok = Some True, result = Some (pack_result sts)\<rparr>"

definition pack_reply :: "sticker list \<Rightarrow> response" where
  "pack_reply sts = Body (pack_body sts)"

definition utya :: platform where
  "utya =
     \<lparr>isalnum = ascii_isalnum, lower = ascii_lower,
      api_get = (\<lambda>tok endpoint param.
         if endpoint = str ''getStickerSet'' then pack_reply [item_A, item_B]
         else if param = str ''fA'' then file_reply (str ''stickers/file_1.webp'')
         else file_reply (str ''stickers/file_2.tgs'')),
      file_get = (\<lambda>tok path. Stream (Some 3) [[1, 2, 3]] False),
      makedirs_ok = (\<lambda>p. True), open_ok = (\<lambda>p. True),
      image_ok = (\<lambda>b. True), save_png = (\<lambda>b p. Written b),
      remove_ok = (\<lambda>p. True), markup_ok = (\<lambda>t. True)\<rparr>"

definition start :: state where
  "start =
     \<lparr>dirs = {}, files = Map.empty, config = Missing, console = [],
      progress = (\<lambda>t. \<lparr>task_total = 0, task_completed = 0\<rparr>), calls = []\<rparr>"

definition client :: downloader where
  "client = \<lparr>bot_token = JString (str ''123:abc'')\<rparr>"

definition utya_link :: pystr where
  "utya_link = str ''https://t.me/addstickers/UtyaTheDuck''"

section \<open>Notions of the specification\<close>

text \<open>Opening the source as an image and re-encoding it at the destination both succeed.\<close>

definition conversion_succeeds :: "platform \<Rightarrow> state \<Rightarrow> pystr \<Rightarrow> pystr \<Rightarrow> bool" where
  "conversion_succeeds P s webp_path png_path =
     (case files s webp_path of
        None \<Rightarrow> False
      | Some b \<Rightarrow>
          image_ok P b \<and> (case save_png P b png_path of Written out \<Rightarrow> True | SaveError left \<Rightarrow> False))"

text \<open>The bytes a stream delivers before it ends or breaks.\<close>

definition streamed :: "stream \<Rightarrow> nat" where
  "streamed r =
     (case r of
        StreamException \<Rightarrow> 0
      | Stream_bad_length \<Rightarrow> 0
      | Stream len cs brk \<Rightarrow> sum_list (map length cs))"

text \<open>
  The file-location lookup of an item succeeded: \<open>getFile\<close> answered its \<open>file_id\<close>
  with a reply whose \<open>ok\<close> flag is true.
\<close>

definition located :: "platform \<Rightarrow> downloader \<Rightarrow> sticker \<Rightarrow> bool" where
  "located P d st =
     (case file_id st of
        None \<Rightarrow> False
      | Some fid \<Rightarrow>
          (case api_get P (bot_token d) (str ''getFile'') fid of
             RequestException \<Rightarrow> False
           | Not_object j \<Rightarrow> False
           | Body r \<Rightarrow> ok r = Some True))"

text \<open>The remote path of a located item.\<close>

definition item_path :: "platform \<Rightarrow> downloader \<Rightarrow> sticker \<Rightarrow> pystr option" where
  "item_path P d st =
     (case file_id st of
        None \<Rightarrow> None
      | Some fid \<Rightarrow>
          (case api_get P (bot_token d) (str ''getFile'') fid of
             RequestException \<Rightarrow> None
           | Not_object j \<Rightarrow> None
           | Body r \<Rightarrow>
               if ok r = Some True
               then (case result r of None \<Rightarrow> None | Some res \<Rightarrow> file_path res)
               else None))"

text \<open>The original extension of the item is the lossy container format, in any case.\<close>

definition webp_item :: "platform \<Rightarrow> downloader \<Rightarrow> sticker \<Rightarrow> bool" where
  "webp_item P d st =
     (case item_path P d st of
        None \<Rightarrow> False
      | Some path \<Rightarrow> lower P (snd (splitext path)) = str ''.webp'')"

text \<open>The bytes the stream of the item delivers.\<close>

definition item_bytes :: "platform \<Rightarrow> downloader \<Rightarrow> sticker \<Rightarrow> nat" where
  "item_bytes P d st =
     (case item_path P d st of
        None \<Rightarrow> 0
      | Some path \<Rightarrow> streamed (file_get P (bot_token d) path))"

fun is_convert :: "call \<Rightarrow> bool" where
  "is_convert (Convert_call webp_path png_path) = True"
| "is_convert (Download_call path save_path) = False"

definition conversions :: "state \<Rightarrow> nat" where
  "conversions s = length (filter is_convert (calls s))"



text \<open>A string holds a high surrogate immediately followed by a low one.\<close>

fun has_surrogate_pair :: "pystr \<Rightarrow> bool" where
  "has_surrogate_pair (hi # lo # rest) =
     ((55296 \<le> hi \<and> hi \<le> 56319 \<and> 56320 \<le> lo \<and> lo \<le> 57343) \<or> has_surrogate_pair (lo # rest))"
| "has_surrogate_pair cs = False"

text \<open>
  A one-pixel WebP file, a one-pixel PNG file, and a platform whose image library opens
  the first and writes the second; it opens nothing else.
\<close>

definition tiny_webp :: bytes where
  "tiny_webp =
     [82, 73, 70, 70, 26, 0, 0, 0, 87, 69, 66, 80, 86, 80, 56, 76, 13, 0, 0, 0,
      47, 0, 0, 0, 16, 7, 16, 17, 17, 136, 136, 254, 7, 0]"

definition tiny_png :: bytes where
  "tiny_png =
     [137, 80, 78, 71, 13, 10, 26, 10, 0, 0, 0, 13, 73, 72, 68, 82, 0, 0, 0, 1, 0, 0, 0, 1,
      8, 6, 0, 0, 0, 31, 21, 196, 137, 0, 0, 0, 11, 73, 68, 65, 84, 120, 156, 99, 96, 0, 2,
      0, 0, 5, 0, 1, 122, 94, 171, 63, 0, 0, 0, 0, 73, 69, 78, 68, 174, 66, 96, 130]"

definition pillow :: platform where
  "pillow = utya\<lparr>image_ok := \<lambda>b. b = tiny_webp, save_png := \<lambda>b p. Written tiny_png\<rparr>"

text \<open>The same platform on a directory from which nothing can be removed.\<close>

definition locked :: platform where
  "locked = pillow\<lparr>remove_ok := \<lambda>p. False\<rparr>"

definition one_webp :: state where
  "one_webp = start\<lparr>files := [str ''in/a.webp'' \<mapsto> tiny_webp]\<rparr>"

section \<open>The credential store\<close>

lemma join_surrogates_length: "length (join_surrogates t) \<le> length t"
  by (induction t rule: join_surrogates.induct) auto

lemma join_surrogates_same: "\<not> has_surrogate_pair t \<Longrightarrow> join_surrogates t = t"
  by (induction t rule: join_surrogates.induct) auto

lemma join_surrogates_shorter: "has_surrogate_pair t \<Longrightarrow> length (join_surrogates t) < length t"
proof (induction t rule: join_surrogates.induct)
  case (1 hi lo rest)
  then show ?case
    using join_surrogates_length [of rest] by (auto simp add: less_Suc_eq_le)
qed simp_all

lemma join_surrogates_iff: "join_surrogates t = t \<longleftrightarrow> \<not> has_surrogate_pair t"
  using join_surrogates_same [of t] join_surrogates_shorter [of t] by fastforce

text \<open>
  C9, as stated, fails: the token made of the two code points U+D83E and U+DD86, a high
  surrogate followed by a low one, is saved and comes back as the one code point
  U+1F986.
\<close>

theorem surrogate_pair_round_trip_counterexample:
  "open_ok utya CONFIG_FILE \<and>
   fst (save_token utya (JString [55358, 56710]) start) = Inr () \<and>
   load_token (snd (save_token utya (JString [55358, 56710]) start)) = Inr (JString [129414]) \<and>
   JString [129414] \<noteq> JString [55358, 56710]"
  by (simp add: save_token_def load_token_def utya_def str_def)

text \<open>
  C9, amended. When the config file can be opened for writing, \<open>save_token(t)\<close> returns
  normally, and a following \<open>load_token()\<close> returns \<open>t\<close> exactly for the token strings
  \<open>t\<close> that hold no high surrogate immediately followed by a low surrogate.
\<close>

theorem save_then_load:
  "open_ok P CONFIG_FILE \<Longrightarrow>
     fst (save_token P (JString t) s) = Inr () \<and>
     (load_token (snd (save_token P (JString t) s)) = Inr (JString t)
        \<longleftrightarrow> \<not> has_surrogate_pair t)"
proof -
  assume o: "open_ok P CONFIG_FILE"
  have k: "join_surrogates (str ''bot_token'') = str ''bot_token''"
    by (simp add: str_def)
  show ?thesis
    using o join_surrogates_iff [of t] by (simp add: save_token_def load_token_def k)
qed

theorem save_then_load_witness:
  "open_ok utya CONFIG_FILE \<and> \<not> has_surrogate_pair (str ''123:abc'') \<and>
   load_token (snd (save_token utya (JString (str ''123:abc'')) start)) = Inr (JString (str ''123:abc''))"
proof -
  have o: "open_ok utya CONFIG_FILE"
    by (simp add: utya_def)
  have p: "\<not> has_surrogate_pair (str ''123:abc'')"
    by (simp add: str_def)
  show ?thesis
    using save_then_load [OF o, of "str ''123:abc''" start] o p by simp
qed

text \<open>
  What \<open>load_token\<close> does return \<open>None\<close> for: a missing file, text that is not JSON, and
  a JSON object without the \<open>bot_token\<close> field, which it treats as a missing file.
\<close>

lemma load_token_absent:
  "(config s = Missing \<or> config s = Malformed \<or>
      (\<exists>kvs. config s = Document (JObject kvs) \<and> map_of kvs (str ''bot_token'') = None))
   \<Longrightarrow> load_token s = Inr JNull \<and> load_token s = load_token (s\<lparr>config := Missing\<rparr>)"
  by (auto simp add: load_token_def)

text \<open>
  C4 on two config files. One holds the JSON document \<open>[]\<close>, which is parseable and
  has no \<open>bot_token\<close> field: \<open>load_token\<close> raises \<open>AttributeError\<close>. The other holds
  bytes that are not text, which is not parseable: \<open>load_token\<close> raises
  \<open>UnicodeDecodeError\<close>. In both cases the claim says that it returns \<open>None\<close>.
\<close>

theorem load_token_raises:
  "load_token (start\<lparr>config := Document (JArray [])\<rparr>) = Inl AttributeError \<and>
   load_token (start\<lparr>config := Undecodable\<rparr>) = Inl UnicodeDecodeError"
  by (simp add: load_token_def)

section \<open>State projections\<close>

lemma print_fields [simp]:
  "console (print m s) = console s @ [m]"
  "dirs (print m s) = dirs s"
  "files (print m s) = files s"
  "config (print m s) = config s"
  "progress (print m s) = progress s"
  "calls (print m s) = calls s"
  by (simp_all add: print_def)

lemma record_call_fields [simp]:
  "calls (record_call c s) = calls s @ [c]"
  "dirs (record_call c s) = dirs s"
  "files (record_call c s) = files s"
  "config (record_call c s) = config s"
  "progress (record_call c s) = progress s"
  "console (record_call c s) = console s"
  by (simp_all add: record_call_def)

lemma advance_fields [simp]:
  "task_completed (progress (advance t n s) t') =
     task_completed (progress s t') + (if t' = t then n else 0)"
  "task_total (progress (advance t n s) t') = task_total (progress s t')"
  "dirs (advance t n s) = dirs s"
  "files (advance t n s) = files s"
  "config (advance t n s) = config s"
  "console (advance t n s) = console s"
  "calls (advance t n s) = calls s"
  by (simp_all add: advance_def)

lemma update_total_fields [simp]:
  "task_completed (progress (update_total t n s) t') = task_completed (progress s t')"
  "task_total (progress (update_total t n s) t') = (if t' = t then n else task_total (progress s t'))"
  "dirs (update_total t n s) = dirs s"
  "files (update_total t n s) = files s"
  "config (update_total t n s) = config s"
  "console (update_total t n s) = console s"
  "calls (update_total t n s) = calls s"
  by (simp_all add: update_total_def)

lemma add_task_fields [simp]:
  "progress (add_task t n s) t' =
     (if t' = t then \<lparr>task_total = n, task_completed = 0\<rparr> else progress s t')"
  "dirs (add_task t n s) = dirs s"
  "files (add_task t n s) = files s"
  "config (add_task t n s) = config s"
  "console (add_task t n s) = console s"
  "calls (add_task t n s) = calls s"
  by (simp_all add: add_task_def)

lemma write_chunks_completed:
  "task_completed (progress (write_chunks path t cs s) t') =
     task_completed (progress s t') + (if t' = t then sum_list (map length cs) else 0)"
  by (induction cs arbitrary: s) simp_all

lemma write_chunks_fields [simp]:
  "dirs (write_chunks path t cs s) = dirs s"
  "config (write_chunks path t cs s) = config s"
  "console (write_chunks path t cs s) = console s"
  "calls (write_chunks path t cs s) = calls s"
  by (induction cs arbitrary: s, simp_all)+


section \<open>The image converter\<close>

text \<open>
  C6, as stated, fails: the source is the one-pixel WebP file, the image library opens
  and re-encodes it, the destination is written, but the source cannot be removed from
  its directory. \<open>os.remove\<close> raises inside the \<open>try\<close>, the error is logged, and the
  source is still there although opening and re-encoding succeeded.
\<close>

theorem source_kept_after_conversion_counterexample:
  "conversion_succeeds locked one_webp (str ''in/a.webp'') (str ''out/a.png'') \<and>
   files (convert_webp_to_png locked (str ''in/a.webp'') (str ''out/a.png'') one_webp)
     (str ''out/a.png'') = Some tiny_png \<and>
   files (convert_webp_to_png locked (str ''in/a.webp'') (str ''out/a.png'') one_webp)
     (str ''in/a.webp'') = Some tiny_webp \<and>
   console (convert_webp_to_png locked (str ''in/a.webp'') (str ''out/a.png'') one_webp)
     = [Error_converting]"
  by (simp add: conversion_succeeds_def convert_webp_to_png_def Let_def locked_def pillow_def
      one_webp_def start_def str_def)

text \<open>
  C6, amended. The converter deletes the source exactly when opening, re-encoding and
  the removal itself succeed. Then the source is gone, the destination holds the encoded
  image and nothing is logged. On any failure (unreadable source, write error, refused
  removal) one error is logged and the source is not deleted: it exists afterwards if
  and only if it existed before, with its content when the destination is another path.
\<close>

theorem convert_deletes_source_iff_success:
  "(if conversion_succeeds P s webp_path png_path \<and> remove_ok P webp_path
    then files (convert_webp_to_png P webp_path png_path s) webp_path = None \<and>
         files s webp_path \<noteq> None \<and>
         (png_path \<noteq> webp_path \<longrightarrow>
            (\<exists>b out. files s webp_path = Some b \<and> save_png P b png_path = Written out \<and>
                 files (convert_webp_to_png P webp_path png_path s) png_path = Some out)) \<and>
         console (convert_webp_to_png P webp_path png_path s) = console s
    else (files (convert_webp_to_png P webp_path png_path s) webp_path = None
            \<longleftrightarrow> files s webp_path = None) \<and>
         (png_path \<noteq> webp_path \<longrightarrow>
            files (convert_webp_to_png P webp_path png_path s) webp_path = files s webp_path) \<and>
         console (convert_webp_to_png P webp_path png_path s) = console s @ [Error_converting])"
  by (auto simp add: conversion_succeeds_def convert_webp_to_png_def Let_def
      split: option.splits save_outcome.splits)

theorem convert_deletes_source_iff_success_witness:
  "conversion_succeeds pillow one_webp (str ''in/a.webp'') (str ''out/a.png'') \<and>
   remove_ok pillow (str ''in/a.webp'') \<and>
   files (convert_webp_to_png pillow (str ''in/a.webp'') (str ''out/a.png'') one_webp)
     (str ''in/a.webp'') = None \<and>
   files (convert_webp_to_png pillow (str ''in/a.webp'') (str ''out/a.png'') one_webp)
     (str ''out/a.png'') = Some tiny_png \<and>
   \<not> conversion_succeeds pillow (start\<lparr>files := [str ''in/a.webp'' \<mapsto> [7, 8]]\<rparr>)
       (str ''in/a.webp'') (str ''out/a.png'') \<and>
   files (convert_webp_to_png pillow (str ''in/a.webp'') (str ''out/a.png'')
            (start\<lparr>files := [str ''in/a.webp'' \<mapsto> [7, 8]]\<rparr>)) (str ''in/a.webp'') = Some [7, 8] \<and>
   console (convert_webp_to_png pillow (str ''in/a.webp'') (str ''out/a.png'')
              (start\<lparr>files := [str ''in/a.webp'' \<mapsto> [7, 8]]\<rparr>)) = [Error_converting]"
proof -
  have ok: "conversion_succeeds pillow one_webp (str ''in/a.webp'') (str ''out/a.png'')"
    "remove_ok pillow (str ''in/a.webp'')"
    by (simp_all add: conversion_succeeds_def pillow_def utya_def one_webp_def)
  have no: "\<not> conversion_succeeds pillow (start\<lparr>files := [str ''in/a.webp'' \<mapsto> [7, 8]]\<rparr>)
                (str ''in/a.webp'') (str ''out/a.png'')"
    by (simp add: conversion_succeeds_def pillow_def tiny_webp_def)
  have ne: "str ''out/a.png'' \<noteq> str ''in/a.webp''"
    by (simp add: str_def)
  have w: "files one_webp (str ''in/a.webp'') = Some tiny_webp"
    "save_png pillow tiny_webp (str ''out/a.png'') = Written tiny_png"
    by (simp_all add: one_webp_def pillow_def)
  show ?thesis
    using convert_deletes_source_iff_success [of pillow one_webp "str ''in/a.webp''" "str ''out/a.png''"]
      convert_deletes_source_iff_success
        [of pillow "start\<lparr>files := [str ''in/a.webp'' \<mapsto> [7, 8]]\<rparr>" "str ''in/a.webp''"
            "str ''out/a.png''"]
      ok no ne w
    by (auto simp add: start_def)
qed

section \<open>Failure of the pack metadata fetch\<close>

lemma get_sticker_set_exception:
  "api_get P (bot_token d) (str ''getStickerSet'') name = RequestException \<Longrightarrow>
     get_sticker_set P d name s = (No_answer, print Error_api_request s)"
  by (simp add: get_sticker_set_def make_api_request_def)

lemma get_sticker_set_body:
  "api_get P (bot_token d) (str ''getStickerSet'') name = Body r \<Longrightarrow>
     get_sticker_set P d name s = (Dict r, s)"
  by (simp add: get_sticker_set_def make_api_request_def)


text \<open>
  C5. When the metadata fetch gives nothing (a request exception) or a reply whose
  \<open>ok\<close> flag is missing or false, \<open>download_sticker_pack\<close> reports the error and returns:
  no directory is created, no file is touched, no progress task exists and neither file
  helper has run.
\<close>

theorem failed_pack_fetch_changes_nothing:
  "api_get P (bot_token d) (str ''getStickerSet'') (last_segment link) = RequestException \<or>
   (\<exists>r. api_get P (bot_token d) (str ''getStickerSet'') (last_segment link) = Body r \<and>
        ok r \<noteq> Some True)
   \<Longrightarrow> fst (download_sticker_pack P d link out s) = Inr () \<and>
       dirs (snd (download_sticker_pack P d link out s)) = dirs s \<and>
       files (snd (download_sticker_pack P d link out s)) = files s \<and>
       progress (snd (download_sticker_pack P d link out s)) = progress s \<and>
       calls (snd (download_sticker_pack P d link out s)) = calls s \<and>
       config (snd (download_sticker_pack P d link out s)) = config s \<and>
       console (snd (download_sticker_pack P d link out s))
         \<in> {console s @ [Error_pack_info], console s @ [Error_api_request, Error_pack_info]}"
proof (elim disjE exE conjE)
  assume "api_get P (bot_token d) (str ''getStickerSet'') (last_segment link) = RequestException"
  then have "download_sticker_pack P d link out s
               = (Inr (), print Error_pack_info (print Error_api_request s))"
    by (simp add: download_sticker_pack_def get_sticker_set_exception)
  then show ?thesis by simp
next
  fix r
  assume "api_get P (bot_token d) (str ''getStickerSet'') (last_segment link) = Body r"
    and "ok r \<noteq> Some True"
  then have "download_sticker_pack P d link out s = (Inr (), print Error_pack_info s)"
    by (simp add: download_sticker_pack_def get_sticker_set_body)
  then show ?thesis by simp
qed

theorem failed_pack_fetch_changes_nothing_witness:
  "api_get (utya\<lparr>api_get := \<lambda>tok e x. Body \<lparr>ok = Some False, result = None\<rparr>\<rparr>) (bot_token client)
       (str ''getStickerSet'') (last_segment utya_link) = Body \<lparr>ok = Some False, result = None\<rparr> \<and>
   ok \<lparr>ok = Some False, result = None\<rparr> \<noteq> Some True \<and>
   fst (download_sticker_pack (utya\<lparr>api_get := \<lambda>tok e x. Body \<lparr>ok = Some False, result = None\<rparr>\<rparr>)
          client utya_link OUTPUT_FOLDER start) = Inr () \<and>
   dirs (snd (download_sticker_pack (utya\<lparr>api_get := \<lambda>tok e x. Body \<lparr>ok = Some False, result = None\<rparr>\<rparr>)
          client utya_link OUTPUT_FOLDER start)) = {}"
  using failed_pack_fetch_changes_nothing
          [of "utya\<lparr>api_get := \<lambda>tok e x. Body \<lparr>ok = Some False, result = None\<rparr>\<rparr>" client utya_link
              OUTPUT_FOLDER start]
  by (simp add: start_def)

section \<open>One iteration of the loop\<close>

lemma get_file_info_exception:
  "api_get P (bot_token d) (str ''getFile'') fid = RequestException \<Longrightarrow>
     get_file_info P d fid s = (No_answer, print Error_api_request s)"
  by (simp add: get_file_info_def make_api_request_def)

lemma get_file_info_body:
  "api_get P (bot_token d) (str ''getFile'') fid = Body r \<Longrightarrow>
     get_file_info P d fid s = (Dict r, s)"
  by (simp add: get_file_info_def make_api_request_def)

text \<open>The lookup failed: the item is skipped and the download task advances.\<close>

lemma process_sticker_exception:
  "file_id st = Some fid \<Longrightarrow>
   api_get P (bot_token d) (str ''getFile'') fid = RequestException \<Longrightarrow>
     process_sticker P d folder st s = (Inr (), advance Download_task 1 (print Error_api_request s))"
  by (simp add: process_sticker_def get_file_info_exception)

lemma process_sticker_not_ok:
  "file_id st = Some fid \<Longrightarrow>
   api_get P (bot_token d) (str ''getFile'') fid = Body r \<Longrightarrow> ok r \<noteq> Some True \<Longrightarrow>
     process_sticker P d folder st s = (Inr (), advance Download_task 1 s)"
  by (simp add: process_sticker_def get_file_info_body)

lemma get_file_info_other:
  "api_get P (bot_token d) (str ''getFile'') fid = Not_object j \<Longrightarrow>
     get_file_info P d fid s = (Other j, s)"
  by (simp add: get_file_info_def make_api_request_def)

lemma process_sticker_other:
  "file_id st = Some fid \<Longrightarrow>
   api_get P (bot_token d) (str ''getFile'') fid = Not_object j \<Longrightarrow>
     process_sticker P d folder st s =
       (if j then (Inl AttributeError, s) else (Inr (), advance Download_task 1 s))"
  by (simp add: process_sticker_def get_file_info_other)

text \<open>The lookup succeeded and every field is there: download, convert, advance.\<close>

lemma process_sticker_located:
  "file_id st = Some fid \<Longrightarrow>
   api_get P (bot_token d) (str ''getFile'') fid = Body r \<Longrightarrow> ok r = Some True \<Longrightarrow>
   result r = Some res \<Longrightarrow> file_path res = Some path \<Longrightarrow> file_unique_id st = Some uid \<Longrightarrow>
     process_sticker P d folder st s =
       (case download_file P d path
               (path_join folder (file_name uid (sanitized_emoji P st) (snd (splitext path))))
               Download_task s of
          (Inl e, s2) \<Rightarrow> (Inl e, s2)
        | (Inr u, s2) \<Rightarrow>
            (Inr (),
             advance Download_task 1
               (advance Convert_task 1
                  (if lower P (snd (splitext path)) = str ''.webp''
                   then convert_webp_to_png P
                          (path_join folder (file_name uid (sanitized_emoji P st) (snd (splitext path))))
                          (path_join folder (png_file_name uid (sanitized_emoji P st))) s2
                   else s2))))"
  by (simp add: process_sticker_def get_file_info_body Let_def split: prod.splits sum.splits)

lemma download_file_calls [simp]:
  "calls (snd (download_file P d path save_path t s)) = calls s @ [Download_call path save_path]"
  by (simp add: download_file_def Let_def split: stream.splits)

lemma convert_calls [simp]:
  "calls (convert_webp_to_png P webp_path png_path s) = calls s @ [Convert_call webp_path png_path]"
  by (simp add: convert_webp_to_png_def Let_def split: option.splits save_outcome.splits)

lemma convert_progress [simp]:
  "progress (convert_webp_to_png P webp_path png_path s) = progress s"
  by (simp add: convert_webp_to_png_def Let_def split: option.splits save_outcome.splits)

lemma download_file_completed:
  "download_file P d path save_path t s = (Inr u, s') \<Longrightarrow>
     task_completed (progress s' t') =
       task_completed (progress s t') + (if t' = t then streamed (file_get P (bot_token d) path) else 0)"
  by (auto simp add: download_file_def Let_def streamed_def write_chunks_completed
      split: stream.splits if_splits)

section \<open>The example pack, run\<close>

lemma utya_fields:
  "isalnum utya = ascii_isalnum"
  "lower utya = ascii_lower"
  "file_get utya tok p = Stream (Some 3) [[1, 2, 3]] False"
  "makedirs_ok utya p"
  "open_ok utya p"
  "image_ok utya b"
  "save_png utya b p = Written b"
  "remove_ok utya p"
  "markup_ok utya ttl"
  by (simp_all add: utya_def)

lemma utya_api:
  "api_get utya tok (str ''getStickerSet'') x = pack_reply [item_A, item_B]"
  "api_get utya tok (str ''getFile'') (str ''fA'') = file_reply (str ''stickers/file_1.webp'')"
  "api_get utya tok (str ''getFile'') (str ''fB'') = file_reply (str ''stickers/file_2.tgs'')"
  by (simp_all add: utya_def str_def)

lemma example_replies [simp]:
  "ok (file_body path) = Some True"
  "result (file_body path) = Some (file_result path)"
  "file_path (file_result path) = Some path"
  "ok (pack_body sts) = Some True"
  "result (pack_body sts) = Some (pack_result sts)"
  "title (pack_result sts) = Some (str ''Utya The Duck'')"
  "stickers (pack_result sts) = Some sts"
  by (simp_all add: file_body_def file_result_def pack_body_def pack_result_def)

lemma utya_items:
  "file_id item_A = Some (str ''fA'')"
  "file_unique_id item_A = Some (str ''AAA'')"
  "file_id item_B = Some (str ''fB'')"
  "file_unique_id item_B = Some (str ''BBB'')"
  by (simp_all add: item_A_def item_B_def)

lemma utya_ext:
  "snd (splitext (str ''stickers/file_1.webp'')) = str ''.webp''"
  "snd (splitext (str ''stickers/file_2.tgs'')) = str ''.tgs''"
  by (simp_all add: splitext_def last_segment_def str_def)

lemma utya_lower:
  "lower utya (str ''.webp'') = str ''.webp''"
  "lower utya (str ''.tgs'') \<noteq> str ''.webp''"
  by (simp_all add: utya_fields ascii_lower_def str_def)

lemma utya_names:
  "path_join (str ''stickers/UtyaTheDuck'')
     (file_name (str ''AAA'') (sanitized_emoji utya item_A) (str ''.webp''))
     = str ''stickers/UtyaTheDuck/AAA_.webp''"
  "path_join (str ''stickers/UtyaTheDuck'') (png_file_name (str ''AAA'') (sanitized_emoji utya item_A))
     = str ''stickers/UtyaTheDuck/AAA_.png''"
  "path_join (str ''stickers/UtyaTheDuck'')
     (file_name (str ''BBB'') (sanitized_emoji utya item_B) (str ''.tgs''))
     = str ''stickers/UtyaTheDuck/BBB_.tgs''"
  by (simp_all add: path_join_def file_name_def png_file_name_def sanitized_emoji_def
      utya_fields ascii_isalnum_def item_A_def item_B_def str_def)

lemma utya_download:
  "download_file utya d path save_path t s =
     (Inr (),
      advance t 3
        (update_total t 3 (record_call (Download_call path save_path) s)
           \<lparr>files := (files s)(save_path \<mapsto> [1, 2, 3])\<rparr>))"
  by (simp add: download_file_def utya_fields Let_def numeral_3_eq_3)

lemma utya_item_B:
  "process_sticker utya d (str ''stickers/UtyaTheDuck'') item_B s =
     (Inr (),
      advance Download_task 1
        (advance Convert_task 1
           (snd (download_file utya d (str ''stickers/file_2.tgs'')
                   (str ''stickers/UtyaTheDuck/BBB_.tgs'') Download_task s))))"
  using process_sticker_located
          [OF utya_items(3) utya_api(3) [unfolded file_reply_def] example_replies(1,2,3)
              utya_items(4), of d "str ''stickers/UtyaTheDuck''" s]
  by (simp add: utya_ext utya_names utya_lower utya_download)

lemma utya_item_A:
  "process_sticker utya d (str ''stickers/UtyaTheDuck'') item_A s =
     (Inr (),
      advance Download_task 1
        (advance Convert_task 1
           (convert_webp_to_png utya (str ''stickers/UtyaTheDuck/AAA_.webp'')
              (str ''stickers/UtyaTheDuck/AAA_.png'')
              (snd (download_file utya d (str ''stickers/file_1.webp'')
                      (str ''stickers/UtyaTheDuck/AAA_.webp'') Download_task s)))))"
  using process_sticker_located
          [OF utya_items(1) utya_api(2) [unfolded file_reply_def] example_replies(1,2,3)
              utya_items(2), of d "str ''stickers/UtyaTheDuck''" s]
  by (simp add: utya_ext utya_names utya_lower utya_download)

section \<open>What one item and the whole loop do to the counters\<close>

lemma process_sticker_cases:
  assumes "process_sticker P d folder st s = (Inr u, s')"
  obtains
    (skipped) "\<not> located P d st" "item_path P d st = None"
      "s' = advance Download_task 1 s \<or> s' = advance Download_task 1 (print Error_api_request s)"
  | (handled) path uid s2 where
      "located P d st" "item_path P d st = Some path" "file_unique_id st = Some uid"
      "download_file P d path
         (path_join folder (file_name uid (sanitized_emoji P st) (snd (splitext path))))
         Download_task s = (Inr (), s2)"
      "s' = advance Download_task 1
              (advance Convert_task 1
                 (if lower P (snd (splitext path)) = str ''.webp''
                  then convert_webp_to_png P
                         (path_join folder (file_name uid (sanitized_emoji P st) (snd (splitext path))))
                         (path_join folder (png_file_name uid (sanitized_emoji P st))) s2
                  else s2))"
proof (cases "file_id st")
  case None
  with assms show ?thesis by (simp add: process_sticker_def)
next
  case (Some fid)
  show ?thesis
  proof (cases "api_get P (bot_token d) (str ''getFile'') fid")
    case RequestException
    with Some assms skipped show ?thesis
      by (simp add: process_sticker_exception located_def item_path_def)
  next
    case (Not_object j)
    with Some assms skipped show ?thesis
      by (simp add: process_sticker_other located_def item_path_def split: if_splits)
  next
    case (Body r)
    show ?thesis
    proof (cases "ok r = Some True")
      case False
      with Some Body assms skipped show ?thesis
        by (simp add: process_sticker_not_ok located_def item_path_def)
    next
      case True
      from Some Body True assms obtain res where res: "result r = Some res"
        by (cases "result r") (simp_all add: process_sticker_def get_file_info_body)
      from Some Body True res assms obtain path where path: "file_path res = Some path"
        by (cases "file_path res") (simp_all add: process_sticker_def get_file_info_body)
      from Some Body True res path assms obtain uid where uid: "file_unique_id st = Some uid"
        by (cases "file_unique_id st") (simp_all add: process_sticker_def get_file_info_body Let_def)
      note eq = process_sticker_located [OF Some Body True res path uid, of folder s]
      obtain r2 s2 where dl:
        "download_file P d path
           (path_join folder (file_name uid (sanitized_emoji P st) (snd (splitext path))))
           Download_task s = (r2, s2)"
        by (cases "download_file P d path
           (path_join folder (file_name uid (sanitized_emoji P st) (snd (splitext path))))
           Download_task s")
      from assms eq dl have r2: "r2 = Inr ()" by (cases r2) simp_all
      from assms eq dl r2 have
        "s' = advance Download_task 1
              (advance Convert_task 1
                 (if lower P (snd (splitext path)) = str ''.webp''
                  then convert_webp_to_png P
                         (path_join folder (file_name uid (sanitized_emoji P st) (snd (splitext path))))
                         (path_join folder (png_file_name uid (sanitized_emoji P st))) s2
                  else s2))"
        by simp
      moreover have "located P d st" "item_path P d st = Some path"
        using Some Body True res path by (simp_all add: located_def item_path_def)
      ultimately show ?thesis using handled uid dl r2 by blast
    qed
  qed
qed

lemma process_sticker_convert_counter:
  assumes "process_sticker P d folder st s = (Inr u, s')"
  shows "task_completed (progress s' Convert_task) =
           task_completed (progress s Convert_task) + (if located P d st then 1 else 0)"
  using assms
proof (cases rule: process_sticker_cases)
  case skipped
  then show ?thesis by auto
next
  case (handled path uid s2)
  then show ?thesis by (auto dest: download_file_completed [where t' = Convert_task])
qed

lemma process_sticker_conversions:
  assumes "process_sticker P d folder st s = (Inr u, s')"
  shows "conversions s' = conversions s + (if webp_item P d st then 1 else 0)"
  using assms
proof (cases rule: process_sticker_cases)
  case skipped
  then show ?thesis by (auto simp add: conversions_def webp_item_def)
next
  case (handled path uid s2)
  from handled(4) have "calls s2 = calls s @
      [Download_call path (path_join folder (file_name uid (sanitized_emoji P st) (snd (splitext path))))]"
    using download_file_calls [of P d path _ Download_task s] by (metis snd_conv)
  with handled show ?thesis by (simp add: conversions_def webp_item_def)
qed

lemma process_sticker_download_counter:
  assumes "process_sticker P d folder st s = (Inr u, s')"
  shows "task_completed (progress s' Download_task) =
           task_completed (progress s Download_task) + 1 + item_bytes P d st"
  using assms
proof (cases rule: process_sticker_cases)
  case skipped
  then show ?thesis by (auto simp add: item_bytes_def)
next
  case (handled path uid s2)
  then show ?thesis
    by (auto simp add: item_bytes_def dest: download_file_completed [where t' = Download_task])
qed

lemma download_loop_convert_counter:
  "download_loop P d folder sts s = (Inr u, s') \<Longrightarrow>
     task_completed (progress s' Convert_task) =
       task_completed (progress s Convert_task) + length (filter (located P d) sts)"
proof (induction sts arbitrary: s)
  case Nil
  then show ?case by simp
next
  case (Cons st sts)
  then obtain s1 where "process_sticker P d folder st s = (Inr (), s1)"
    and "download_loop P d folder sts s1 = (Inr u, s')"
    by (auto split: prod.splits sum.splits)
  then show ?case
    using Cons.IH [of s1] process_sticker_convert_counter [of P d folder st s "()" s1] by simp
qed

lemma download_loop_conversions:
  "download_loop P d folder sts s = (Inr u, s') \<Longrightarrow>
     conversions s' = conversions s + length (filter (webp_item P d) sts)"
proof (induction sts arbitrary: s)
  case Nil
  then show ?case by simp
next
  case (Cons st sts)
  then obtain s1 where "process_sticker P d folder st s = (Inr (), s1)"
    and "download_loop P d folder sts s1 = (Inr u, s')"
    by (auto split: prod.splits sum.splits)
  then show ?case
    using Cons.IH [of s1] process_sticker_conversions [of P d folder st s "()" s1] by simp
qed

lemma download_loop_download_counter:
  "download_loop P d folder sts s = (Inr u, s') \<Longrightarrow>
     task_completed (progress s' Download_task) =
       task_completed (progress s Download_task) + length sts + sum_list (map (item_bytes P d) sts)"
proof (induction sts arbitrary: s)
  case Nil
  then show ?case by simp
next
  case (Cons st sts)
  then obtain s1 where "process_sticker P d folder st s = (Inr (), s1)"
    and "download_loop P d folder sts s1 = (Inr u, s')"
    by (auto split: prod.splits sum.splits)
  then show ?case
    using Cons.IH [of s1] process_sticker_download_counter [of P d folder st s "()" s1] by simp
qed

section \<open>A whole run\<close>

lemma download_sticker_pack_ok:
  assumes "api_get P (bot_token d) (str ''getStickerSet'') (last_segment link) = Body r"
    and "ok r = Some True" and "result r = Some res"
    and "title res = Some ttl" and "stickers res = Some sts"
    and "makedirs_ok P (path_join out (last_segment link))"
    and "markup_ok P ttl"
  shows "download_sticker_pack P d link out s =
     (case download_loop P d (path_join out (last_segment link)) sts
             (add_task Convert_task (length sts)
                (add_task Download_task (length sts)
                   (print (Panel_downloading ttl)
                      (s\<lparr>dirs := dirs s \<union> set (makedirs_paths (path_join out (last_segment link)))\<rparr>)))) of
        (Inl e, s5) \<Rightarrow> (Inl e, s5)
      | (Inr u, s5) \<Rightarrow> (Inr (), print Panel_complete s5))"
  using assms
  by (simp add: download_sticker_pack_def get_sticker_set_body Let_def split: prod.splits sum.splits)

lemma download_sticker_pack_returns:
  assumes "api_get P (bot_token d) (str ''getStickerSet'') (last_segment link) = Body r"
    and "ok r = Some True" and "result r = Some res" and "stickers res = Some sts"
    and "download_sticker_pack P d link out s = (Inr u, s')"
  obtains ttl s5 where
    "download_loop P d (path_join out (last_segment link)) sts
       (add_task Convert_task (length sts)
          (add_task Download_task (length sts)
             (print (Panel_downloading ttl)
                (s\<lparr>dirs := dirs s \<union> set (makedirs_paths (path_join out (last_segment link)))\<rparr>))))
       = (Inr (), s5)"
    "s' = print Panel_complete s5"
proof -
  from assms have mk: "makedirs_ok P (path_join out (last_segment link))"
    by (auto simp add: download_sticker_pack_def get_sticker_set_body Let_def split: if_splits)
  from assms mk obtain ttl where ttl: "title res = Some ttl"
    by (cases "title res") (simp_all add: download_sticker_pack_def get_sticker_set_body Let_def)
  from assms mk ttl have mu: "markup_ok P ttl"
    by (auto simp add: download_sticker_pack_def get_sticker_set_body Let_def split: if_splits)
  note eq = download_sticker_pack_ok [OF assms(1,2,3) ttl assms(4) mk mu, of s]
  obtain r5 s5 where lp:
    "download_loop P d (path_join out (last_segment link)) sts
       (add_task Convert_task (length sts)
          (add_task Download_task (length sts)
             (print (Panel_downloading ttl)
                (s\<lparr>dirs := dirs s \<union> set (makedirs_paths (path_join out (last_segment link)))\<rparr>))))
       = (r5, s5)"
    by (cases "download_loop P d (path_join out (last_segment link)) sts
       (add_task Convert_task (length sts)
          (add_task Download_task (length sts)
             (print (Panel_downloading ttl)
                (s\<lparr>dirs := dirs s \<union> set (makedirs_paths (path_join out (last_segment link)))\<rparr>))))")
  from assms(5) eq lp have "r5 = Inr ()" by (cases r5) simp_all
  with assms(5) eq lp that show ?thesis by simp
qed

lemma utya_link_segment: "last_segment utya_link = str ''UtyaTheDuck''"
  by (simp add: last_segment_def utya_link_def str_def)

lemma utya_folder: "path_join OUTPUT_FOLDER (str ''UtyaTheDuck'') = str ''stickers/UtyaTheDuck''"
  by (simp add: path_join_def OUTPUT_FOLDER_def str_def)

lemma utya_run:
  "download_sticker_pack utya d utya_link OUTPUT_FOLDER s =
     (Inr (),
      print Panel_complete
        (snd (download_loop utya d (str ''stickers/UtyaTheDuck'') [item_A, item_B]
           (add_task Convert_task (length [item_A, item_B])
              (add_task Download_task (length [item_A, item_B])
                 (print (Panel_downloading (str ''Utya The Duck''))
                    (s\<lparr>dirs := dirs s \<union> set (makedirs_paths (str ''stickers/UtyaTheDuck''))\<rparr>)))))))"
  using download_sticker_pack_ok
          [OF utya_api(1) [unfolded pack_reply_def] example_replies(4,5,6,7) utya_fields(4)
              utya_fields(9), of d utya_link OUTPUT_FOLDER s]
  by (simp add: utya_link_segment utya_folder utya_item_A utya_item_B)

lemma utya_convert:
  "files s webp_path = Some b \<Longrightarrow> webp_path \<noteq> png_path \<Longrightarrow>
     convert_webp_to_png utya webp_path png_path s =
       (record_call (Convert_call webp_path png_path) s)
         \<lparr>files := (files s)(png_path \<mapsto> b, webp_path := None)\<rparr>"
  by (simp add: convert_webp_to_png_def utya_fields Let_def)

lemma utya_paths_differ:
  "str ''stickers/UtyaTheDuck/AAA_.webp'' \<noteq> str ''stickers/UtyaTheDuck/AAA_.png''"
  "str ''stickers/UtyaTheDuck/BBB_.tgs'' \<noteq> str ''stickers/UtyaTheDuck/AAA_.png''"
  "str ''stickers/UtyaTheDuck/BBB_.tgs'' \<noteq> str ''stickers/UtyaTheDuck/AAA_.webp''"
  "str ''stickers/UtyaTheDuck/BBB_sticker.tgs'' \<noteq> str ''stickers/UtyaTheDuck/BBB_.tgs''"
  "str ''stickers/UtyaTheDuck/BBB_sticker.tgs'' \<noteq> str ''stickers/UtyaTheDuck/AAA_.png''"
  "str ''stickers/UtyaTheDuck/BBB_sticker.tgs'' \<noteq> str ''stickers/UtyaTheDuck/AAA_.webp''"
  by (simp_all add: str_def)

lemma utya_files:
  "files (snd (download_sticker_pack utya d utya_link OUTPUT_FOLDER s)) =
     (files s)(str ''stickers/UtyaTheDuck/AAA_.png'' \<mapsto> [1, 2, 3],
               str ''stickers/UtyaTheDuck/AAA_.webp'' := None,
               str ''stickers/UtyaTheDuck/BBB_.tgs'' \<mapsto> [1, 2, 3])"
  by (simp add: utya_run utya_item_A utya_item_B utya_download utya_convert utya_paths_differ)

lemma utya_counters:
  "task_completed (progress (snd (download_sticker_pack utya d utya_link OUTPUT_FOLDER s)) Download_task) = 8"
  "task_completed (progress (snd (download_sticker_pack utya d utya_link OUTPUT_FOLDER s)) Convert_task) = 2"
  by (simp_all add: utya_run utya_item_A utya_item_B utya_download)

lemma utya_calls:
  "calls (snd (download_sticker_pack utya d utya_link OUTPUT_FOLDER s)) =
     calls s @
     [Download_call (str ''stickers/file_1.webp'') (str ''stickers/UtyaTheDuck/AAA_.webp''),
      Convert_call (str ''stickers/UtyaTheDuck/AAA_.webp'') (str ''stickers/UtyaTheDuck/AAA_.png''),
      Download_call (str ''stickers/file_2.tgs'') (str ''stickers/UtyaTheDuck/BBB_.tgs'')]"
  by (simp add: utya_run utya_item_A utya_item_B)

section \<open>File names\<close>

text \<open>
  C1, as stated, fails on the example pack of the specification. Item A has an all-symbol
  emoji and item B an empty one; both filter to the empty string, and the files are
  stored as \<open>AAA_.png\<close> and \<open>BBB_.tgs\<close>: no placeholder is inserted, and no file
  \<open>BBB_sticker.tgs\<close> exists.
\<close>

theorem placeholder_for_empty_emoji_counterexample:
  "emoji item_A = Some [129414] \<and> sanitized_emoji utya item_A = [] \<and>
   emoji item_B = Some [] \<and> sanitized_emoji utya item_B = [] \<and>
   files (snd (download_sticker_pack utya client utya_link OUTPUT_FOLDER start))
     (str ''stickers/UtyaTheDuck/AAA_.png'') = Some [1, 2, 3] \<and>
   files (snd (download_sticker_pack utya client utya_link OUTPUT_FOLDER start))
     (str ''stickers/UtyaTheDuck/BBB_.tgs'') = Some [1, 2, 3] \<and>
   files (snd (download_sticker_pack utya client utya_link OUTPUT_FOLDER start))
     (str ''stickers/UtyaTheDuck/BBB_sticker.tgs'') = None"
  by (simp add: utya_files utya_paths_differ sanitized_emoji_def utya_fields ascii_isalnum_def
      item_A_def item_B_def start_def)

text \<open>
  C1, amended. For every sticker descriptor whose file is located, the file is
  downloaded to the unique identifier, an underscore, the emoji annotation filtered to its
  alphanumeric characters, and the extension. When the filtered annotation is empty the
  stem ends in the underscore. The placeholder stands in for a missing \<open>emoji\<close> field
  only: then the stem is the unique identifier followed by \<open>_sticker\<close>.
\<close>

theorem file_stem_of_item:
  assumes "file_id st = Some fid"
    and "api_get P (bot_token d) (str ''getFile'') fid = Body r" and "ok r = Some True"
    and "result r = Some res" and "file_path res = Some path"
    and "file_unique_id st = Some uid"
  shows
    "(\<forall>e. emoji st = Some e \<longrightarrow>
        Download_call path
          (path_join folder (uid @ str ''_'' @ filter (isalnum P) e @ snd (splitext path)))
          \<in> set (calls (snd (process_sticker P d folder st s)))) \<and>
     (\<forall>e. emoji st = Some e \<and> filter (isalnum P) e = [] \<longrightarrow>
        Download_call path (path_join folder (uid @ str ''_'' @ snd (splitext path)))
          \<in> set (calls (snd (process_sticker P d folder st s)))) \<and>
     (emoji st = None \<and> list_all (isalnum P) (str ''sticker'') \<longrightarrow>
        Download_call path (path_join folder (uid @ str ''_sticker'' @ snd (splitext path)))
          \<in> set (calls (snd (process_sticker P d folder st s))))"
proof -
  let ?dest = "path_join folder (file_name uid (sanitized_emoji P st) (snd (splitext path)))"
  have "Download_call path ?dest \<in> set (calls (snd (download_file P d path ?dest Download_task s)))"
    by simp
  then have call: "Download_call path ?dest \<in> set (calls (snd (process_sticker P d folder st s)))"
    by (simp add: process_sticker_located [OF assms] split: prod.splits sum.splits)
      (metis download_file_calls in_set_conv_decomp snd_conv)
  have kept: "list_all (isalnum P) (str ''sticker'') \<Longrightarrow>
                filter (isalnum P) (str ''sticker'') = str ''sticker''"
    by (simp add: list_all_iff)
  have "uid @ str ''_sticker'' @ x = uid @ str ''_'' @ str ''sticker'' @ x" for x
    by (simp add: str_def)
  with call kept show ?thesis
    by (auto simp add: file_name_def sanitized_emoji_def)
qed

theorem file_stem_of_item_witness:
  "Download_call (str ''stickers/file_1.webp'') (str ''stickers/UtyaTheDuck/AAA_.webp'')
     \<in> set (calls (snd (process_sticker utya client (str ''stickers/UtyaTheDuck'') item_A start))) \<and>
   list_all (isalnum utya) (str ''sticker'') \<and>
   Download_call (str ''stickers/file_2.tgs'') (str ''stickers/UtyaTheDuck/BBB_sticker.tgs'')
     \<in> set (calls (snd (process_sticker utya client (str ''stickers/UtyaTheDuck'')
                           (item_B\<lparr>emoji := None\<rparr>) start)))"
proof -
  have l: "list_all (isalnum utya) (str ''sticker'')"
    by (simp add: utya_fields ascii_isalnum_def str_def)
  have ia: "emoji item_A = Some [129414]" and ib: "emoji (item_B\<lparr>emoji := None\<rparr>) = None"
    and fb: "file_id (item_B\<lparr>emoji := None\<rparr>) = Some (str ''fB'')"
    and ub: "file_unique_id (item_B\<lparr>emoji := None\<rparr>) = Some (str ''BBB'')"
    by (simp_all add: item_A_def item_B_def)
  show ?thesis
    using file_stem_of_item
            [where d = client and folder = "str ''stickers/UtyaTheDuck''" and s = start,
             OF utya_items(1) utya_api(2) [unfolded file_reply_def] example_replies(1,2,3)
                utya_items(2)]
          file_stem_of_item
            [where d = client and folder = "str ''stickers/UtyaTheDuck''" and s = start,
             OF fb utya_api(3) [unfolded file_reply_def] example_replies(1,2,3) ub]
    by (simp add: ia ib l utya_fields ascii_isalnum_def path_join_def splitext_def
        last_segment_def str_def)
qed

section \<open>The progress counters\<close>

text \<open>
  C3, as stated, fails on the example pack: only item A is a \<open>.webp\<close> file and the
  converter runs once, but the convert counter ends at two, because item B (a \<open>.tgs\<close>
  file) advances it as well.
\<close>

theorem convert_counter_only_for_webp_counterexample:
  "webp_item utya client item_A \<and> \<not> webp_item utya client item_B \<and>
   conversions (snd (download_sticker_pack utya client utya_link OUTPUT_FOLDER start)) = 1 \<and>
   task_completed
     (progress (snd (download_sticker_pack utya client utya_link OUTPUT_FOLDER start)) Convert_task) = 2"
  by (simp add: utya_counters utya_calls conversions_def start_def webp_item_def item_path_def
      utya_items utya_api file_reply_def utya_ext utya_lower)

text \<open>
  C3, amended. When a pack is downloaded, the convert counter ends at the number of
  items whose file-location lookup succeeded, whatever their extension; the converter is
  invoked once for each item whose original extension is \<open>.webp\<close> in any case, and
  these are among the located items.
\<close>

theorem convert_counter_counts_located_items:
  assumes "api_get P (bot_token d) (str ''getStickerSet'') (last_segment link) = Body r"
    and "ok r = Some True" and "result r = Some res" and "stickers res = Some sts"
    and "download_sticker_pack P d link out s = (Inr u, s')"
  shows "task_completed (progress s' Convert_task) = length (filter (located P d) sts) \<and>
         conversions s' = conversions s + length (filter (webp_item P d) sts) \<and>
         filter (webp_item P d) (filter (located P d) sts) = filter (webp_item P d) sts"
proof -
  from assms obtain ttl s5 where
    lp: "download_loop P d (path_join out (last_segment link)) sts
           (add_task Convert_task (length sts)
              (add_task Download_task (length sts)
                 (print (Panel_downloading ttl)
                    (s\<lparr>dirs := dirs s \<union> set (makedirs_paths (path_join out (last_segment link)))\<rparr>))))
           = (Inr (), s5)"
    and s': "s' = print Panel_complete s5"
    by (rule download_sticker_pack_returns)
  have "webp_item P d st \<Longrightarrow> located P d st" for st
    by (auto simp add: webp_item_def item_path_def located_def
        split: option.splits response.splits if_splits)
  then have "filter (webp_item P d) (filter (located P d) sts) = filter (webp_item P d) sts"
    by (induction sts) auto
  with download_loop_convert_counter [OF lp] download_loop_conversions [OF lp] s'
  show ?thesis by (simp add: conversions_def)
qed

theorem convert_counter_counts_located_items_witness:
  "fst (download_sticker_pack utya client utya_link OUTPUT_FOLDER start) = Inr () \<and>
   task_completed
     (progress (snd (download_sticker_pack utya client utya_link OUTPUT_FOLDER start)) Convert_task)
     = length (filter (located utya client) [item_A, item_B]) \<and>
   length (filter (located utya client) [item_A, item_B]) = 2"
proof -
  have run: "download_sticker_pack utya client utya_link OUTPUT_FOLDER start =
               (Inr (), snd (download_sticker_pack utya client utya_link OUTPUT_FOLDER start))"
    by (simp add: utya_run)
  have "located utya client item_A" "located utya client item_B"
    by (simp_all add: located_def utya_items utya_api file_reply_def)
  then show ?thesis
    using convert_counter_counts_located_items
            [OF utya_api(1) [unfolded pack_reply_def] example_replies(4,5,7) run]
    by (simp add: utya_run)
qed

text \<open>
  C7 on the example pack, each file served as three bytes: the run ends normally with
  the download counter at eight, not at two, the number of sticker descriptors.
  \<open>_download_file\<close> is given the download task and advances it by the length of every
  chunk it writes.
\<close>

theorem download_counter_after_example_run:
  "fst (download_sticker_pack utya client utya_link OUTPUT_FOLDER start) = Inr () \<and>
   task_completed
     (progress (snd (download_sticker_pack utya client utya_link OUTPUT_FOLDER start)) Download_task) = 8 \<and>
   length [item_A, item_B] = 2"
  by (simp add: utya_counters) (simp add: utya_run)

section \<open>A download that fails\<close>





section \<open>Collisions of file names\<close>

lemma splitext_starts_with_period:
  "snd (splitext p) = [] \<or> hd (snd (splitext p)) = 46"
  by (simp add: splitext_def Let_def)

lemma sanitized_emoji_alnum:
  "c \<in> set (sanitized_emoji P st) \<Longrightarrow> isalnum P c"
  by (simp add: sanitized_emoji_def)

text \<open>
  If one name is the other with a non-empty text in front of the underscore, that text
  contains a period.
\<close>

lemma longer_id_has_period:
  fixes us :: pystr
  assumes eq: "us @ 95 # s1 @ e1 = 95 # s2 @ e2"
    and s2: "95 \<notin> set s2"
    and e2: "e2 = [] \<or> hd e2 = 46"
    and us: "46 \<notin> set us"
  shows "us = []"
proof (rule ccontr)
  assume "us \<noteq> []"
  with eq obtain rest where rest: "us = 95 # rest" and tl: "rest @ 95 # s1 @ e1 = s2 @ e2"
    by (cases us) auto
  from tl obtain vs where
    "(rest = s2 @ vs \<and> vs @ 95 # s1 @ e1 = e2) \<or> (rest @ vs = s2 \<and> 95 # s1 @ e1 = vs @ e2)"
    by (auto simp add: append_eq_append_conv2)
  then show False
  proof (elim disjE conjE)
    assume r: "rest = s2 @ vs" and v: "vs @ 95 # s1 @ e1 = e2"
    show False
    proof (cases vs)
      case Nil
      with v e2 show False by auto
    next
      case (Cons v vs')
      with v e2 have "v = 46" by auto
      with Cons r rest us show False by simp
    qed
  next
    assume r: "rest @ vs = s2" and v: "95 # s1 @ e1 = vs @ e2"
    show False
    proof (cases vs)
      case Nil
      with v e2 show False by auto
    next
      case (Cons v vs')
      with v have "v = 95" by simp
      with Cons r s2 show False by auto
    qed
  qed
qed

lemma equal_names_equal_ids:
  fixes u1 :: pystr
  assumes eq: "u1 @ 95 # s1 @ e1 = u2 @ 95 # s2 @ e2"
    and "95 \<notin> set s1" and "95 \<notin> set s2"
    and "e1 = [] \<or> hd e1 = 46" and "e2 = [] \<or> hd e2 = 46"
    and "46 \<notin> set u1" and "46 \<notin> set u2"
  shows "u1 = u2"
proof -
  from eq obtain us where
    "(u1 = u2 @ us \<and> us @ 95 # s1 @ e1 = 95 # s2 @ e2) \<or>
     (u1 @ us = u2 \<and> 95 # s1 @ e1 = us @ 95 # s2 @ e2)"
    by (auto simp add: append_eq_append_conv2)
  then show ?thesis
  proof (elim disjE conjE)
    assume u: "u1 = u2 @ us" and r: "us @ 95 # s1 @ e1 = 95 # s2 @ e2"
    from u assms(6) have "46 \<notin> set us" by simp
    with r assms(3,5) have "us = []" by (rule longer_id_has_period)
    with u show ?thesis by simp
  next
    assume u: "u1 @ us = u2" and r: "95 # s1 @ e1 = us @ 95 # s2 @ e2"
    from u assms(7) have "46 \<notin> set us" by auto
    with r [symmetric] assms(2,4) have "us = []" by (rule longer_id_has_period)
    with u show ?thesis by simp
  qed
qed

text \<open>
  C2, as stated, fails: the unique identifiers \<open>A_.x\<close> and \<open>A\<close> are distinct, and with
  empty emoji annotations, the first file without extension and the second with the
  extension \<open>.x_\<close>, both items get the file name \<open>A_.x_\<close>.
\<close>

theorem distinct_ids_same_name_counterexample:
  "str ''A_.x'' \<noteq> str ''A'' \<and>
   snd (splitext (str ''documents/f'')) = [] \<and>
   snd (splitext (str ''documents/f.x_'')) = str ''.x_'' \<and>
   file_name (str ''A_.x'') (sanitized_emoji utya item_B) (snd (splitext (str ''documents/f'')))
     = str ''A_.x_'' \<and>
   file_name (str ''A'') (sanitized_emoji utya item_B) (snd (splitext (str ''documents/f.x_'')))
     = str ''A_.x_''"
  by (simp add: file_name_def sanitized_emoji_def item_B_def splitext_def last_segment_def str_def)

text \<open>
  C2, amended. The underscore is not alphanumeric. For two sticker descriptors whose
  unique identifiers are distinct and contain no period, the file names computed by
  \<open>download_sticker_pack\<close> are distinct, for every pair of emoji annotations and every
  pair of remote paths (hence extensions): the two downloaded files, the two converted
  files, and the downloaded file of one and the converted file of the other.
\<close>

theorem distinct_ids_distinct_names:
  assumes "\<not> isalnum P 95" and "uid1 \<noteq> uid2" and "46 \<notin> set uid1" and "46 \<notin> set uid2"
  shows "file_name uid1 (sanitized_emoji P st1) (snd (splitext path1))
           \<noteq> file_name uid2 (sanitized_emoji P st2) (snd (splitext path2)) \<and>
         png_file_name uid1 (sanitized_emoji P st1) \<noteq> png_file_name uid2 (sanitized_emoji P st2) \<and>
         file_name uid1 (sanitized_emoji P st1) (snd (splitext path1))
           \<noteq> png_file_name uid2 (sanitized_emoji P st2)"
proof -
  have clean: "95 \<notin> set (sanitized_emoji P st)" for st
    using assms(1) sanitized_emoji_alnum [of 95 P st] by blast
  have png: "str ''.png'' = [] \<or> hd (str ''.png'') = 46"
    by (simp add: str_def)
  have us: "str ''_'' = [95]"
    by (simp add: str_def)
  note inj = equal_names_equal_ids [OF _ clean clean _ _ assms(3,4)]
  show ?thesis
    using assms(2) inj [OF _ splitext_starts_with_period splitext_starts_with_period]
      inj [OF _ png png] inj [OF _ splitext_starts_with_period png]
    by (auto simp add: file_name_def png_file_name_def us)
qed

theorem distinct_ids_distinct_names_witness:
  "\<not> isalnum utya 95 \<and> str ''AAA'' \<noteq> str ''BBB'' \<and>
   46 \<notin> set (str ''AAA'') \<and> 46 \<notin> set (str ''BBB'') \<and>
   file_name (str ''AAA'') (sanitized_emoji utya item_A) (snd (splitext (str ''stickers/file_1.webp'')))
     \<noteq> file_name (str ''BBB'') (sanitized_emoji utya item_B) (snd (splitext (str ''stickers/file_2.tgs'')))"
proof -
  have h: "\<not> isalnum utya 95" "str ''AAA'' \<noteq> str ''BBB''"
    "46 \<notin> set (str ''AAA'')" "46 \<notin> set (str ''BBB'')"
    by (simp_all add: utya_fields ascii_isalnum_def str_def)
  show ?thesis
    using distinct_ids_distinct_names
            [OF h, of item_A "str ''stickers/file_1.webp''" item_B "str ''stickers/file_2.tgs''"] h
    by simp
qed

section \<open>Errors that escape\<close>











end
